theory Spec2Isabelle
  imports Main "HOL-Library.Word"
begin

unbundle bit_operations_syntax

section \<open>Data model of the coordinator (coordinator.go)\<close>

text \<open>
  A \<^verbatim>\<open>[32]byte\<close> array is a list of bytes; every id the coordinator stores has
  32 of them. Go's \<^verbatim>\<open>uint\<close> values (\<^verbatim>\<open>flagArgs.n\<close>, \<^verbatim>\<open>flagArgs.m\<close>, ...) are
  natural numbers, and so are the loop counters and the quotients computed from them,
  which never go below zero; \<^verbatim>\<open>f\<close>, which the code decrements, is an \<^typ>\<open>int\<close>.
  All operands of \<^verbatim>\<open>/\<close> and \<^verbatim>\<open>%\<close> are non-negative, where Go's truncating
  division and HOL's \<open>div\<close> and \<open>mod\<close> agree. The node count is the length of a slice
  the code allocates, so it stays far below \<open>2 ^ 63\<close> and no conversion wraps.
\<close>

type_synonym byte = "8 word"
type_synonym id32 = "byte list"

definition zero32 :: id32 where
  "zero32 = replicate 32 0"

text \<open>How a run of the coordinator ends when it does not return.\<close>

datatype failure =
  Panic_DivideByZero        \<comment> \<open>runtime error: integer divide by zero\<close>
  | Panic_IndexOutOfRange   \<comment> \<open>runtime error: index out of range\<close>
  | Panic_InvalidArgument   \<comment> \<open>a panic raised by a library call on a bad argument\<close>
  | Fatal string            \<comment> \<open>\<^verbatim>\<open>log.Fatal\<close>, \<^verbatim>\<open>errFatal\<close>: the process exits\<close>
  | Panic_SliceBounds       \<comment> \<open>runtime error: slice bounds out of range\<close>
  | Panic_NilDereference    \<comment> \<open>runtime error: invalid memory address or nil pointer dereference\<close>

text \<open>
  \<^verbatim>\<open>NodeAllInfo\<close> is declared outside the two source files; the coordinator uses its
  fields \<^verbatim>\<open>Pub\<close>, \<^verbatim>\<open>IP\<close>, \<^verbatim>\<open>CommitteeID\<close> and \<^verbatim>\<open>IsHonest\<close>. \<^verbatim>\<open>Pub\<close> is a pointer:
  \<open>None\<close> is \<^verbatim>\<open>nil\<close>.
\<close>

record 'pk NodeAllInfo =
  Pub :: "'pk option"
  IP :: string
  CommitteeID :: id32
  IsHonest :: bool

record committeeInfo =
  ci_id :: id32
  ci_npm :: nat
  ci_f :: int

text \<open>The fields of \<^verbatim>\<open>FlagArgs\<close> that the coordinator reads.\<close>

record FlagArgs =
  flag_n :: nat
  flag_m :: nat
  flag_totalF :: nat
  flag_committeeF :: nat

section \<open>The committee-assignment pass (coordinator, lines 311 to 348)\<close>

text \<open>
  One iteration of the loop \<^verbatim>\<open>for i := 0; i < int(flagArgs.n); i++\<close>. The state the
  loop carries is the committee counter \<^verbatim>\<open>c\<close> and the slice \<^verbatim>\<open>nodeInfos\<close>;
  \<^verbatim>\<open>t_npm\<close> and \<^verbatim>\<open>f\<close> are declared inside the body and start afresh each time.
  \<^verbatim>\<open>i%npm\<close> is reached only when \<^verbatim>\<open>i != 0\<close> and panics when \<^verbatim>\<open>npm\<close> is zero;
  \<^verbatim>\<open>committees[c]\<close> panics when \<^verbatim>\<open>c\<close> has run past the slice.
\<close>

definition next_c :: "nat \<Rightarrow> nat \<Rightarrow> nat \<Rightarrow> nat \<Rightarrow> nat \<Rightarrow> nat \<times> nat" where
  "next_c nn npm rest i c =
     (if i \<noteq> 0 \<and> i mod npm = 0
      then (if int i \<noteq> int nn - int rest then (c + 1, npm) else (c, npm + rest))
      else (c, npm))"

definition adversaries :: "nat \<Rightarrow> nat \<Rightarrow> int" where
  "adversaries c t_npm =
     (let c_div = (if c mod 2 = 0 then 3 else 1 :: nat);
          f = int (t_npm div (6 div c_div))
      in if t_npm mod (6 div c_div) = 0 then f - 1 else f)"

definition assign_step ::
  "nat \<Rightarrow> nat \<Rightarrow> nat \<Rightarrow> id32 list \<Rightarrow> nat \<Rightarrow> nat \<times> 'pk NodeAllInfo list
    \<Rightarrow> failure + nat \<times> 'pk NodeAllInfo list" where
  "assign_step nn npm rest committees i s =
     (case s of (c, nodeInfos) \<Rightarrow>
        if i \<noteq> 0 \<and> npm = 0 then Inl Panic_DivideByZero
        else (case next_c nn npm rest i c of (c', t_npm) \<Rightarrow>
          if \<not> i < length nodeInfos \<or> \<not> c' < length committees
          then Inl Panic_IndexOutOfRange
          else
            let f = adversaries c' t_npm;
                honest = (\<not> (t_npm = 0 \<or> int (i mod t_npm) < f))
            in Inr (c', nodeInfos[i :=
                     (nodeInfos ! i)\<lparr>CommitteeID := committees ! c', IsHonest := honest\<rparr>])))"

fun assign_loop ::
  "nat \<Rightarrow> nat \<Rightarrow> nat \<Rightarrow> id32 list \<Rightarrow> nat list \<Rightarrow> nat \<times> 'pk NodeAllInfo list
    \<Rightarrow> failure + nat \<times> 'pk NodeAllInfo list" where
  "assign_loop nn npm rest committees [] s = Inr s"
| "assign_loop nn npm rest committees (i # is) s =
     (case assign_step nn npm rest committees i s of
        Inl e \<Rightarrow> Inl e
      | Inr s' \<Rightarrow> assign_loop nn npm rest committees is s')"

text \<open>
  Lines 312 to 348: \<^verbatim>\<open>npm\<close> and \<^verbatim>\<open>rest\<close>, then the loop from \<^verbatim>\<open>c = 0\<close>.
  The division by \<^verbatim>\<open>flagArgs.m\<close> panics when there is no committee.
\<close>

definition assign_committees ::
  "FlagArgs \<Rightarrow> id32 list \<Rightarrow> 'pk NodeAllInfo list \<Rightarrow> failure + 'pk NodeAllInfo list" where
  "assign_committees fa committees nodeInfos =
     (if flag_m fa = 0 then Inl Panic_DivideByZero
      else
        let npm = flag_n fa div flag_m fa;
            rest = flag_n fa mod flag_m fa
        in (case assign_loop (flag_n fa) npm rest committees [0..<flag_n fa] (0, nodeInfos) of
              Inl e \<Rightarrow> Inl e
            | Inr (c, nodeInfos') \<Rightarrow> Inr nodeInfos'))"

section \<open>The verification pass (coordinator, lines 350 to 387)\<close>

text \<open>
  Lines 351 to 364 count, from the tagged list, the members and the adversaries of each
  run of equal committee ids. \<^verbatim>\<open>committeeInfos\<close> has \<^verbatim>\<open>flagArgs.m\<close> zero-valued
  entries; the index \<^verbatim>\<open>iCommittee\<close> moves on whenever the id changes.
\<close>

definition zero_committeeInfo :: committeeInfo where
  "zero_committeeInfo = \<lparr>ci_id = zero32, ci_npm = 0, ci_f = 0\<rparr>"

definition tally_step ::
  "'pk NodeAllInfo \<Rightarrow> id32 \<times> nat \<times> committeeInfo list
    \<Rightarrow> failure + id32 \<times> nat \<times> committeeInfo list" where
  "tally_step node s =
     (case s of (lastCommittee, iCommittee, committeeInfos) \<Rightarrow>
        let changed = (CommitteeID node \<noteq> lastCommittee);
            lastCommittee' = (if changed then CommitteeID node else lastCommittee);
            iCommittee' = (if changed then iCommittee + 1 else iCommittee)
        in if \<not> iCommittee' < length committeeInfos then Inl Panic_IndexOutOfRange
           else
             let ci = committeeInfos ! iCommittee';
                 ci' = ci\<lparr>ci_id := CommitteeID node, ci_npm := ci_npm ci + 1,
                          ci_f := (if \<not> IsHonest node then ci_f ci + 1 else ci_f ci)\<rparr>
             in Inr (lastCommittee', iCommittee', committeeInfos[iCommittee' := ci']))"

fun tally_loop ::
  "'pk NodeAllInfo list \<Rightarrow> id32 \<times> nat \<times> committeeInfo list
    \<Rightarrow> failure + id32 \<times> nat \<times> committeeInfo list" where
  "tally_loop [] s = Inr s"
| "tally_loop (node # nodes) s =
     (case tally_step node s of
        Inl e \<Rightarrow> Inl e
      | Inr s' \<Rightarrow> tally_loop nodes s')"

definition tally ::
  "FlagArgs \<Rightarrow> id32 list \<Rightarrow> 'pk NodeAllInfo list \<Rightarrow> failure + committeeInfo list" where
  "tally fa committees nodeInfos =
     (case committees of
        [] \<Rightarrow> Inl Panic_IndexOutOfRange
      | c0 # _ \<Rightarrow>
          if length nodeInfos < flag_n fa then Inl Panic_IndexOutOfRange
          else
          (case tally_loop (take (flag_n fa) nodeInfos)
                  (c0, 0, replicate (flag_m fa) zero_committeeInfo) of
             Inl e \<Rightarrow> Inl e
           | Inr (l, k, committeeInfos) \<Rightarrow> Inr committeeInfos))"

text \<open>
  \<^verbatim>\<open>int(math.Ceil(float64(a) / float64(b)))\<close>: for the sizes a run can have (below
  \<open>2 ^ 53\<close>) the quotient of the two floats rounds to an integer only when it is one, so
  the result is the ceiling of the exact quotient. With \<^verbatim>\<open>b = 0\<close> the quotient is
  infinite or not a number; the conversion of such a value is left to the
  implementation, and the code compiled for amd64 yields the smallest \<^verbatim>\<open>int\<close>, below
  every count, so that the test of line 378 holds and line 379 ends the run.
\<close>

definition ceil_quot :: "nat \<Rightarrow> nat \<Rightarrow> int" where
  "ceil_quot a b = (if b = 0 then - (2 ^ 63) else int ((a + b - 1) div b))"

text \<open>
  Lines 372 to 383: the two checks on each committee, and the sum \<^verbatim>\<open>checkTotalF\<close>.
\<close>

fun check_loop ::
  "FlagArgs \<Rightarrow> nat \<Rightarrow> nat \<Rightarrow> committeeInfo list \<Rightarrow> int \<Rightarrow> failure + int" where
  "check_loop fa npm rest [] checkTotalF = Inr checkTotalF"
| "check_loop fa npm rest (ci # cis) checkTotalF =
     (if ci_npm ci \<noteq> npm \<and> ci_npm ci \<noteq> npm + rest
      then Inl (Fatal ''Number of nodes in committee not right'')
      else if ci_f ci \<ge> ceil_quot (ci_npm ci) (flag_committeeF fa)
      then Inl (Fatal ''Comitte has too many adversaries'')
      else check_loop fa npm rest cis (checkTotalF + ci_f ci))"

text \<open>
  Lines 385 to 387. \<^verbatim>\<open>&&\<close> evaluates its right operand only when
  \<^verbatim>\<open>flagArgs.n/flagArgs.m != 1\<close>; both quotients of the right operand are integer
  divisions, and either panics on a zero divisor. \<^verbatim>\<open>checkTotalF\<close> is a sum of counts and
  is never negative, so again truncating division is \<open>div\<close>.
\<close>

definition check_total :: "FlagArgs \<Rightarrow> int \<Rightarrow> failure + unit" where
  "check_total fa checkTotalF =
     (if flag_n fa div flag_m fa \<noteq> 1
      then (if checkTotalF = 0 \<or> flag_totalF fa = 0 then Inl Panic_DivideByZero
            else if int (flag_n fa) div checkTotalF < 1 div int (flag_totalF fa)
            then Inl (Fatal ''There was too many adversaries in total'')
            else Inr ())
      else Inr ())"

text \<open>
  Lines 311 to 387 together: what the coordinator holds when the checks have passed
  (the tagged nodes, the per-committee counts and the total number of adversaries), or
  how it stopped.
\<close>

definition assign_and_verify ::
  "FlagArgs \<Rightarrow> id32 list \<Rightarrow> 'pk NodeAllInfo list
    \<Rightarrow> failure + 'pk NodeAllInfo list \<times> committeeInfo list \<times> int" where
  "assign_and_verify fa committees nodeInfos =
     (case assign_committees fa committees nodeInfos of
        Inl e \<Rightarrow> Inl e
      | Inr nodeInfos' \<Rightarrow>
          (case tally fa committees nodeInfos' of
             Inl e \<Rightarrow> Inl e
           | Inr committeeInfos \<Rightarrow>
               (case check_loop fa (flag_n fa div flag_m fa) (flag_n fa mod flag_m fa)
                       committeeInfos 0 of
                  Inl e \<Rightarrow> Inl e
                | Inr checkTotalF \<Rightarrow>
                    (case check_total fa checkTotalF of
                       Inl e \<Rightarrow> Inl e
                     | Inr u \<Rightarrow> Inr (nodeInfos', committeeInfos, checkTotalF)))))"

section \<open>Seeding, shuffling and committee ids (coordinator, lines 290 to 307)\<close>







section \<open>Telemetry records (coordinator.go, lines 33 to 143)\<close>

text \<open>
  A \<^verbatim>\<open>time.Time\<close> is a number of seconds since January 1 of year 1 and a number of
  nanoseconds within the second. \<^verbatim>\<open>IsZero\<close> holds of the instant where both are zero,
  which is also the zero value of the type; \<^verbatim>\<open>Unix\<close> counts the seconds from 1970.
\<close>

record Time =
  t_sec :: int
  t_nsec :: nat

definition zero_Time :: Time where
  "zero_Time = \<lparr>t_sec = 0, t_nsec = 0\<rparr>"

definition IsZero :: "Time \<Rightarrow> bool" where
  "IsZero t = (t_sec t = 0 \<and> t_nsec t = 0)"

definition Unix :: "Time \<Rightarrow> int" where
  "Unix t = t_sec t - 62135596800"

text \<open>
  \<^verbatim>\<open>routetxresults\<close>. The map \<^verbatim>\<open>committees\<close> is \<^verbatim>\<open>nil\<close> (\<open>None\<close>) until
  \<^verbatim>\<open>init\<close> makes it; it is kept as a list of pairs in the order of insertion, which
  stands for the order, left open by the language, in which \<^verbatim>\<open>range\<close> walks a map.
  \<open>rt_mux\<close> tells whether the record's mutex is held. Every method locks it on entry
  and unlocks it on return, so between two calls it is held only when a call has
  stopped for ever inside the lock. A call that never returns yields \<open>None\<close>.
\<close>

record routetxresults =
  rt_start :: Time
  rt_end :: Time
  rt_committees :: "(id32 \<times> Time) list option"
  rt_mux :: bool

definition new_routetxresults :: routetxresults where
  "new_routetxresults =
     \<lparr>rt_start = zero_Time, rt_end = zero_Time, rt_committees = None, rt_mux = False\<rparr>"

text \<open>
  \<^verbatim>\<open>add\<close> (lines 50 to 60) takes the mutex and, when the map is \<^verbatim>\<open>nil\<close>, calls
  \<^verbatim>\<open>init\<close>, which takes the same mutex again: a \<^verbatim>\<open>sync.Mutex\<close> cannot be taken
  twice, so this call waits for ever and the mutex stays held.
\<close>

definition routetxresults_add ::
  "id32 \<Rightarrow> Time \<Rightarrow> routetxresults \<Rightarrow> bool option \<times> routetxresults" where
  "routetxresults_add cId tim r =
     (if rt_mux r then (None, r)
      else (case rt_committees r of
              None \<Rightarrow> (None, r\<lparr>rt_mux := True\<rparr>)
            | Some cs \<Rightarrow>
                if cId \<in> fst ` set cs then (Some False, r)
                else (Some True, r\<lparr>rt_committees := Some (cs @ [(cId, tim)])\<rparr>)))"

definition routetxresults_addStart ::
  "Time \<Rightarrow> routetxresults \<Rightarrow> bool option \<times> routetxresults" where
  "routetxresults_addStart tim r =
     (if rt_mux r then (None, r)
      else if IsZero (rt_start r) then (Some True, r\<lparr>rt_start := tim\<rparr>)
      else (Some False, r))"

definition routetxresults_addEnd ::
  "Time \<Rightarrow> routetxresults \<Rightarrow> bool option \<times> routetxresults" where
  "routetxresults_addEnd tim r =
     (if rt_mux r then (None, r)
      else if IsZero (rt_end r) then (Some True, r\<lparr>rt_end := tim\<rparr>)
      else (Some False, r))"

text \<open>
  \<^verbatim>\<open>routetxmap\<close>: the map from transaction id to record. Its own mutex is released
  by every method, so it is not part of the state.
\<close>

type_synonym routetxmap = "id32 \<rightharpoonup> routetxresults"

definition routetxmap_add :: "id32 \<Rightarrow> routetxmap \<Rightarrow> routetxmap" where
  "routetxmap_add ID m = (if m ID \<noteq> None then m else m(ID \<mapsto> new_routetxresults))"

definition routetxmap_get :: "id32 \<Rightarrow> routetxmap \<Rightarrow> routetxresults option" where
  "routetxmap_get ID m = m ID"

record IDAGossipResults =
  ida_start :: Time
  ida_reconstructed :: "Time list"

definition new_IDAGossipResults :: IDAGossipResults where
  "new_IDAGossipResults = \<lparr>ida_start = zero_Time, ida_reconstructed = []\<rparr>"

definition addReconstructed :: "Time \<Rightarrow> IDAGossipResults \<Rightarrow> bool \<times> IDAGossipResults" where
  "addReconstructed tim ida =
     (if length (ida_reconstructed ida) = 0
      then (True, ida\<lparr>ida_reconstructed := [tim]\<rparr>)
      else (False, ida\<lparr>ida_reconstructed := ida_reconstructed ida @ [tim]\<rparr>))"

type_synonym IDAGossipResultsMap = "id32 \<rightharpoonup> IDAGossipResults"

definition IDAGossipResultsMap_add :: "id32 \<Rightarrow> IDAGossipResultsMap \<Rightarrow> IDAGossipResultsMap" where
  "IDAGossipResultsMap_add ID m = (if m ID \<noteq> None then m else m(ID \<mapsto> new_IDAGossipResults))"

definition IDAGossipResultsMap_get :: "id32 \<Rightarrow> IDAGossipResultsMap \<Rightarrow> IDAGossipResults option" where
  "IDAGossipResultsMap_get ID m = m ID"

section \<open>The telemetry dispatcher (coordinator.go, lines 426 to 574)\<close>

text \<open>
  \<^verbatim>\<open>toByte32\<close> and \<^verbatim>\<open>bytes32ToString\<close> are declared outside the two source files; the
  dispatcher takes them as they are.
\<close>

record helpers =
  toByte32 :: "byte list \<Rightarrow> id32"
  bytes32ToString :: "id32 \<Rightarrow> string"

text \<open>
  The dynamic types a payload (\<^verbatim>\<open>msg.Msg\<close>, an empty interface) is asserted to have.
  A \<^verbatim>\<open>time.Duration\<close> is a signed 64-bit count of nanoseconds.
\<close>

datatype 'blk payload =
  P_Bytes32 id32
  | P_string string
  | P_FinalBlock 'blk
  | P_Duration "64 word"
  | P_ByteArrayAndTimestamp "byte list" Time
  | P_other

record 'blk Msg =
  Typ :: string
  Msg :: "'blk payload"

text \<open>
  What the handlers share: the channel of final blocks (the blocks it holds and its
  capacity; the transaction generator, outside these files, takes them out), the six
  result files (what has been written to each), and the two maps of records.
\<close>

record 'blk coordinator_state =
  finalBlockChan :: "'blk list"
  finalBlockCap :: nat
  files :: "string list"
  rMap :: routetxmap
  idaresults :: IDAGossipResultsMap

text \<open>
  Lines 175, 180 to 192 and 223 to 234: an empty channel with room for
  \<^verbatim>\<open>flagArgs.m*2\<close> blocks, six empty files, two empty maps.
\<close>

definition initial_state :: "FlagArgs \<Rightarrow> 'blk coordinator_state" where
  "initial_state fa =
     \<lparr>finalBlockChan = [], finalBlockCap = flag_m fa * 2, files = replicate 6 [],
      rMap = Map.empty, idaresults = Map.empty\<rparr>"

text \<open>
  How one call of \<^verbatim>\<open>coordinatorDebugStatsHandleConnection\<close> ends: it returns, it waits
  for ever on a mutex, it waits with its block for room in the full channel, or it
  takes the process down. Each call is one step on the shared
  state; the pause between a first end or reconstruction report and the writing of its
  line, during which other calls may run, is not part of the step.
\<close>

datatype 's handled = Returned 's | Waits_forever 's | Waits_to_send 's | Exits failure

text \<open>
  Modelled from the spec: \<^verbatim>\<open>errFatal\<close> and \<^verbatim>\<open>notOkErr\<close> are declared outside the two
  source files. Section 7 of the spec makes an unrecognised tag and a malformed payload
  fatal, that is, process-terminating; \<^verbatim>\<open>main\<close> too calls \<^verbatim>\<open>errFatal\<close> inside the test
  of the condition it rejects. \<^verbatim>\<open>notOkErr(ok, s)\<close> is fatal when the type assertion
  before it has failed.
\<close>

definition errFatal :: "string \<Rightarrow> 's handled" where
  "errFatal s = Exits (Fatal s)"

text \<open>\<^verbatim>\<open>strconv.FormatInt(x, 10)\<close>, and \<^verbatim>\<open>%d\<close> of an unsigned value.\<close>

fun FormatUint :: "nat \<Rightarrow> string" where
  "FormatUint x =
     (if x < 10 then [''0123456789'' ! x]
      else FormatUint (x div 10) @ [''0123456789'' ! (x mod 10)])"

declare FormatUint.simps [simp del]

definition FormatInt :: "int \<Rightarrow> string" where
  "FormatInt x = (if x < 0 then ''-'' @ FormatUint (nat (- x)) else FormatUint (nat x))"

text \<open>Lines 426 to 448; \<open>now\<close> is \<^verbatim>\<open>time.Now().Unix()\<close>.\<close>

definition prepareResultString :: "int \<Rightarrow> string \<Rightarrow> string" where
  "prepareResultString now s = FormatInt now @ '','' @ s @ [CHR 0x0A]"

definition writeStringToFile ::
  "int \<Rightarrow> string \<Rightarrow> nat \<Rightarrow> 'blk coordinator_state \<Rightarrow> 'blk coordinator_state handled" where
  "writeStringToFile now s k st =
     (if \<not> k < length (files st) then Exits Panic_IndexOutOfRange
      else Returned (st\<lparr>files := (files st)[k := files st ! k @ prepareResultString now s]\<rparr>))"

definition writeIntToFile ::
  "int \<Rightarrow> int \<Rightarrow> nat \<Rightarrow> 'blk coordinator_state \<Rightarrow> 'blk coordinator_state handled" where
  "writeIntToFile now integer k st = writeStringToFile now (FormatInt integer) k st"

text \<open>\<^verbatim>\<open>binary.LittleEndian.Uint64\<close> on a slice of eight bytes.\<close>

definition LittleEndian_Uint64 :: "byte list \<Rightarrow> 64 word" where
  "LittleEndian_Uint64 b =
     ucast (b ! 0) OR push_bit 8 (ucast (b ! 1)) OR push_bit 16 (ucast (b ! 2))
     OR push_bit 24 (ucast (b ! 3)) OR push_bit 32 (ucast (b ! 4))
     OR push_bit 40 (ucast (b ! 5)) OR push_bit 48 (ucast (b ! 6))
     OR push_bit 56 (ucast (b ! 7))"

text \<open>The line of a route record (lines 509 to 522), read without the record's mutex.\<close>

definition route_line :: "helpers \<Rightarrow> routetxresults \<Rightarrow> string" where
  "route_line hp r =
     (if IsZero (rt_start r) then ''0'' else FormatInt (Unix (rt_start r)))
     @ '','' @ FormatInt (Unix (rt_end r))
     @ concat (map (\<lambda>(cID, tStamp). '','' @ bytes32ToString hp cID @ '','' @ FormatInt (Unix tStamp))
         (case rt_committees r of None \<Rightarrow> [] | Some cs \<Rightarrow> cs))"

text \<open>The line of a gossip record (lines 543 to 551).\<close>

definition ida_line :: "IDAGossipResults \<Rightarrow> string" where
  "ida_line ida =
     FormatInt (Unix (ida_start ida))
     @ concat (map (\<lambda>tStamp. '','' @ FormatInt (Unix tStamp)) (ida_reconstructed ida))"

text \<open>
  The three cases on the route map. Each makes sure of the record
  (\<^verbatim>\<open>rMap.add(ID)\<close>), fetches it (\<^verbatim>\<open>rMap.get(ID)\<close>) and calls one method on it. The
  result is what the method returned, if it returned, and the map afterwards.
\<close>

definition on_record ::
  "(routetxresults \<Rightarrow> bool option \<times> routetxresults) \<Rightarrow> id32 \<Rightarrow> routetxmap
    \<Rightarrow> failure + bool option \<times> routetxmap" where
  "on_record method ID m =
     (let m' = routetxmap_add ID m
      in (case routetxmap_get ID m' of
            None \<Rightarrow> Inl Panic_NilDereference
          | Some r \<Rightarrow> (case method r of (ok, r') \<Rightarrow> Inr (ok, m'(ID \<mapsto> r')))))"

definition routetx :: "id32 \<Rightarrow> Time \<Rightarrow> routetxmap \<Rightarrow> failure + bool option \<times> routetxmap" where
  "routetx ID tim m = on_record (routetxresults_addStart tim) ID m"

definition find_node ::
  "id32 \<Rightarrow> id32 \<Rightarrow> Time \<Rightarrow> routetxmap \<Rightarrow> failure + bool option \<times> routetxmap" where
  "find_node txid committeeID tim m = on_record (routetxresults_add committeeID tim) txid m"

definition transaction_recieved ::
  "id32 \<Rightarrow> Time \<Rightarrow> routetxmap \<Rightarrow> failure + bool option \<times> routetxmap" where
  "transaction_recieved ID tim m = on_record (routetxresults_addEnd tim) ID m"

text \<open>Lines 528 to 531: the start of a gossip is assigned to the field.\<close>

definition start_ida_gossip :: "id32 \<Rightarrow> Time \<Rightarrow> IDAGossipResultsMap \<Rightarrow> failure + IDAGossipResultsMap" where
  "start_ida_gossip ID tim m =
     (let m' = IDAGossipResultsMap_add ID m
      in (case IDAGossipResultsMap_get ID m' of
            None \<Rightarrow> Inl Panic_NilDereference
          | Some ida \<Rightarrow> Inr (m'(ID \<mapsto> ida\<lparr>ida_start := tim\<rparr>))))"

definition reconstructed_ida_gossip ::
  "id32 \<Rightarrow> Time \<Rightarrow> IDAGossipResultsMap \<Rightarrow> failure + bool \<times> IDAGossipResultsMap" where
  "reconstructed_ida_gossip ID tim m =
     (let m' = IDAGossipResultsMap_add ID m
      in (case IDAGossipResultsMap_get ID m' of
            None \<Rightarrow> Inl Panic_NilDereference
          | Some ida \<Rightarrow> (case addReconstructed tim ida of (ok, ida') \<Rightarrow> Inr (ok, m'(ID \<mapsto> ida')))))"

text \<open>Lines 558 to 569: the record of a failed accept, parsed from exactly 88 bytes.\<close>

definition consensus_accept_fail_line :: "helpers \<Rightarrow> byte list \<Rightarrow> string" where
  "consensus_accept_fail_line hp b =
     (let cID = toByte32 hp (take 32 b);
          pub = toByte32 hp (take 32 (drop 32 b));
          iter = LittleEndian_Uint64 (take 8 (drop 64 b));
          totalVotes = sint (LittleEndian_Uint64 (take 8 (drop 72 b)));
          rec = sint (LittleEndian_Uint64 (take 8 (drop 80 b)))
      in bytes32ToString hp cID @ '','' @ bytes32ToString hp pub @ '','' @ FormatUint (unat iter)
         @ '','' @ FormatInt totalVotes @ '','' @ FormatInt rec)"

text \<open>
  \<^verbatim>\<open>coordinatorDebugStatsHandleConnection\<close>, from the decoded message on: the
  \<^verbatim>\<open>switch\<close> on \<^verbatim>\<open>msg.Typ\<close>, case by case in the order of the source. A slice
  expression on a payload shorter than its bound panics.
\<close>

definition handle ::
  "helpers \<Rightarrow> int \<Rightarrow> 'blk Msg \<Rightarrow> 'blk coordinator_state \<Rightarrow> 'blk coordinator_state handled" where
  "handle hp now msg st =
     (if Typ msg = ''IDASuccess'' then
        (case Msg msg of P_Bytes32 x \<Rightarrow> Returned st | _ \<Rightarrow> errFatal ''IDASuccess decoding'')
      else if Typ msg = ''consensus'' then
        (case Msg msg of P_string x \<Rightarrow> Returned st
         | _ \<Rightarrow> errFatal ''coordinator consensus cMsg decoding'')
      else if Typ msg = ''finalblock'' then
        (case Msg msg of
           P_FinalBlock block \<Rightarrow>
             if length (finalBlockChan st) < finalBlockCap st
             then Returned (st\<lparr>finalBlockChan := finalBlockChan st @ [block]\<rparr>)
             else Waits_to_send st
         | _ \<Rightarrow> errFatal ''finalblock'')
      else if Typ msg = ''pocverify'' then
        (case Msg msg of P_Duration dur \<Rightarrow> writeIntToFile now (sint dur) 1 st
         | _ \<Rightarrow> errFatal ''pocverify'')
      else if Typ msg = ''pocadd'' then
        (case Msg msg of P_Duration dur \<Rightarrow> writeIntToFile now (sint dur) 2 st
         | _ \<Rightarrow> errFatal ''pocadd'')
      else if Typ msg = ''routetx'' then
        (case Msg msg of
           P_ByteArrayAndTimestamp b t \<Rightarrow>
             (case routetx (toByte32 hp b) t (rMap st) of
                Inl e \<Rightarrow> Exits e
              | Inr (None, m) \<Rightarrow> Waits_forever (st\<lparr>rMap := m\<rparr>)
              | Inr (Some ok, m) \<Rightarrow> Returned (st\<lparr>rMap := m\<rparr>))
         | _ \<Rightarrow> errFatal ''routtx'')
      else if Typ msg = ''find_node'' then
        (case Msg msg of
           P_ByteArrayAndTimestamp b t \<Rightarrow>
             if length b < 32 then Exits Panic_SliceBounds
             else
               (case find_node (toByte32 hp (take 32 b)) (toByte32 hp (drop 32 b)) t (rMap st) of
                  Inl e \<Rightarrow> Exits e
                | Inr (None, m) \<Rightarrow> Waits_forever (st\<lparr>rMap := m\<rparr>)
                | Inr (Some ok, m) \<Rightarrow> Returned (st\<lparr>rMap := m\<rparr>))
         | _ \<Rightarrow> errFatal ''find_node'')
      else if Typ msg = ''transaction_recieved'' then
        (case Msg msg of
           P_ByteArrayAndTimestamp b t \<Rightarrow>
             (case transaction_recieved (toByte32 hp b) t (rMap st) of
                Inl e \<Rightarrow> Exits e
              | Inr (None, m) \<Rightarrow> Waits_forever (st\<lparr>rMap := m\<rparr>)
              | Inr (Some ok, m) \<Rightarrow>
                  if ok then
                    (case m (toByte32 hp b) of
                       None \<Rightarrow> Exits Panic_NilDereference
                     | Some r \<Rightarrow> writeStringToFile now (route_line hp r) 3 (st\<lparr>rMap := m\<rparr>))
                  else Returned (st\<lparr>rMap := m\<rparr>))
         | _ \<Rightarrow> errFatal ''transaction recived'')
      else if Typ msg = ''start_ida_gossip'' then
        (case Msg msg of
           P_ByteArrayAndTimestamp b t \<Rightarrow>
             (case start_ida_gossip (toByte32 hp b) t (idaresults st) of
                Inl e \<Rightarrow> Exits e
              | Inr m \<Rightarrow> Returned (st\<lparr>idaresults := m\<rparr>))
         | _ \<Rightarrow> errFatal ''start ida gossip'')
      else if Typ msg = ''reconstructed_ida_gossip'' then
        (case Msg msg of
           P_ByteArrayAndTimestamp b t \<Rightarrow>
             (case reconstructed_ida_gossip (toByte32 hp b) t (idaresults st) of
                Inl e \<Rightarrow> Exits e
              | Inr (ok, m) \<Rightarrow>
                  if ok then
                    (case m (toByte32 hp b) of
                       None \<Rightarrow> Exits Panic_NilDereference
                     | Some ida \<Rightarrow> writeStringToFile now (ida_line ida) 4 (st\<lparr>idaresults := m\<rparr>))
                  else Returned (st\<lparr>idaresults := m\<rparr>))
         | _ \<Rightarrow> errFatal ''reconstructed idagossip'')
      else if Typ msg = ''consensus_accept_fail'' then
        (case Msg msg of
           P_ByteArrayAndTimestamp b t \<Rightarrow>
             if length b \<noteq> 88
             then errFatal (''length of consensus accept fail msg was not 80: ''
                              @ FormatInt (int (length b)) @ '' '')
             else writeStringToFile now (consensus_accept_fail_line hp b) 5 st
         | _ \<Rightarrow> errFatal ''consensus accept fail'')
      else errFatal ''no known message type (coordinator)'')"

section \<open>Auxiliary notions for the statements\<close>

text \<open>
  The record a map holds for a key once \<^verbatim>\<open>add(ID)\<close> has made sure of it: the one
  that was there, or a fresh one.
\<close>

definition record_of :: "('k \<rightharpoonup> 'r) \<Rightarrow> 'k \<Rightarrow> 'r \<Rightarrow> 'r" where
  "record_of m k fresh = (case m k of None \<Rightarrow> fresh | Some r \<Rightarrow> r)"

text \<open>The number that the eight bytes from offset \<open>off\<close> spell, lowest byte first.\<close>

definition le_value :: "byte list \<Rightarrow> nat \<Rightarrow> nat" where
  "le_value b off = (\<Sum>k<8. unat (b ! (off + k)) * 256 ^ k)"

text \<open>The per-committee counts and the total of a run that passed its checks.\<close>

definition counts ::
  "failure + 'pk NodeAllInfo list \<times> committeeInfo list \<times> int
    \<Rightarrow> failure + (nat \<times> int) list \<times> int" where
  "counts = map_sum id (\<lambda>(nodeInfos, committeeInfos, checkTotalF).
     (map (\<lambda>ci. (ci_npm ci, ci_f ci)) committeeInfos, checkTotalF))"

text \<open>
  What the assignment loop is to leave at position \<open>i\<close> of the list, for \<open>m\<close>
  committees, blocks of \<open>npm\<close> nodes and a remainder \<open>rest\<close>: the index of the
  committee (the block of \<open>i\<close>, the last committee for all that lies beyond), the
  value of \<^verbatim>\<open>t_npm\<close> in iteration \<open>i\<close>, the node with its two tags, and the list
  after \<open>k\<close> iterations.
\<close>

definition committee_index :: "nat \<Rightarrow> nat \<Rightarrow> nat \<Rightarrow> nat" where
  "committee_index npm m i = min (i div npm) (m - 1)"

definition t_npm_at :: "nat \<Rightarrow> nat \<Rightarrow> nat \<Rightarrow> nat \<Rightarrow> nat" where
  "t_npm_at m npm rest i = (if i = m * npm \<and> i \<noteq> 0 then npm + rest else npm)"

definition tag_node ::
  "nat \<Rightarrow> nat \<Rightarrow> nat \<Rightarrow> id32 list \<Rightarrow> nat \<Rightarrow> 'pk NodeAllInfo \<Rightarrow> 'pk NodeAllInfo" where
  "tag_node m npm rest committees i node =
     node\<lparr>CommitteeID := committees ! committee_index npm m i,
          IsHonest := \<not> int (i mod t_npm_at m npm rest i)
                        < adversaries (committee_index npm m i) (t_npm_at m npm rest i)\<rparr>"

definition tagged ::
  "nat \<Rightarrow> nat \<Rightarrow> nat \<Rightarrow> id32 list \<Rightarrow> 'pk NodeAllInfo list \<Rightarrow> nat \<Rightarrow> 'pk NodeAllInfo list" where
  "tagged m npm rest committees nodeInfos k =
     map (\<lambda>i. if i < k then tag_node m npm rest committees i (nodeInfos ! i) else nodeInfos ! i)
       [0..<length nodeInfos]"



text \<open>
  Concrete inputs: \<open>k\<close> registered nodes, \<open>k\<close> distinct committee ids, the flags with
  the divisors 3 and 2 that the comments of the assignment loop speak of, stand-ins for
  the two helpers, a payload of 88 bytes, the state in which the dispatcher starts
  (for three committees) and two instants.
\<close>

definition sample_nodes :: "nat \<Rightarrow> nat NodeAllInfo list" where
  "sample_nodes k =
     map (\<lambda>i. \<lparr>Pub = Some i, IP = [], CommitteeID = zero32, IsHonest = False\<rparr>) [0..<k]"

definition sample_committees :: "nat \<Rightarrow> id32 list" where
  "sample_committees k = map (\<lambda>i. replicate 32 (of_nat (i + 1))) [0..<k]"

definition sample_args :: "nat \<Rightarrow> nat \<Rightarrow> FlagArgs" where
  "sample_args a b = \<lparr>flag_n = a, flag_m = b, flag_totalF = 3, flag_committeeF = 2\<rparr>"

definition sample_helpers :: helpers where
  "sample_helpers =
     \<lparr>toByte32 = take 32, bytes32ToString = map (\<lambda>b. ''0123456789abcdef'' ! (unat b mod 16))\<rparr>"

definition sample_payload :: "byte list" where
  "sample_payload =
     replicate 32 1 @ replicate 32 2 @ [5, 0, 0, 0, 0, 0, 0, 0]
     @ replicate 8 255 @ [3, 1, 0, 0, 0, 0, 0, 0]"

definition sample_state :: "nat coordinator_state" where
  "sample_state = initial_state (sample_args 12 3)"

definition sample_t1 :: Time where
  "sample_t1 = \<lparr>t_sec = 63900000000, t_nsec = 0\<rparr>"

definition sample_t2 :: Time where
  "sample_t2 = \<lparr>t_sec = 63900000007, t_nsec = 0\<rparr>"




section \<open>Little-endian decoding\<close>

lemma or_push_bit_byte:
  fixes a :: byte and w :: "64 word"
  shows "ucast a OR push_bit 8 w = ucast a + push_bit 8 w"
proof -
  have "\<And>n. \<not> bit (ucast a :: 64 word) n \<or> \<not> bit (push_bit 8 w) n"
    by (auto simp: bit_simps dest: bit_imp_le_length)
  then show ?thesis
    by (rule disjunctive_add [symmetric])
qed

lemma le_horner: 
  "LittleEndian_Uint64 [b0,b1,b2,b3,b4,b5,b6,b7] =
     ucast b0 + push_bit 8 (ucast b1 + push_bit 8 (ucast b2 + push_bit 8 (ucast b3 + push_bit 8 (ucast b4 + push_bit 8
       (ucast b5 + push_bit 8 (ucast b6 + push_bit 8 (ucast b7)))))))"
proof -
  have "LittleEndian_Uint64 [b0,b1,b2,b3,b4,b5,b6,b7] =
     ucast b0 OR push_bit 8 (ucast b1 OR push_bit 8 (ucast b2 OR push_bit 8 (ucast b3 OR push_bit 8 (ucast b4 OR push_bit 8
       (ucast b5 OR push_bit 8 (ucast b6 OR push_bit 8 (ucast b7)))))))"
    by (simp add: LittleEndian_Uint64_def push_bit_or push_bit_push_bit)
  then show ?thesis
    by (simp only: or_push_bit_byte)
qed

lemma unat_LE:
  "unat (LittleEndian_Uint64 [b0,b1,b2,b3,b4,b5,b6,b7]) =
     unat b0 + 256 * (unat b1 + 256 * (unat b2 + 256 * (unat b3 + 256 * (unat b4 + 256 * (unat b5 + 256 * (unat b6 + 256 * unat b7))))))"
  (is "_ = ?n")
proof -
  have b: "unat x < 256" for x :: byte
    using unsigned_less [of x, where 'a = nat] by simp
  have "LittleEndian_Uint64 [b0,b1,b2,b3,b4,b5,b6,b7] = of_nat ?n"
    by (simp add: le_horner push_bit_eq_mult)
  moreover have "?n < 2 ^ 64"
    using b [of b0] b [of b1] b [of b2] b [of b3] b [of b4] b [of b5] b [of b6] b [of b7]
    by simp
  ultimately show ?thesis
    by (simp add: unat_of_nat del: of_nat_add of_nat_mult)
qed

lemma sum_lessThan_8:
  fixes f :: "nat \<Rightarrow> nat"
  shows "(\<Sum>k<8. f k) = f 0 + f 1 + f 2 + f 3 + f 4 + f 5 + f 6 + f 7"
  by (simp add: eval_nat_numeral)

lemma le_value_eq:
  "le_value b off =
     unat (b ! off) + 256 * (unat (b ! (off + 1)) + 256 * (unat (b ! (off + 2))
     + 256 * (unat (b ! (off + 3)) + 256 * (unat (b ! (off + 4)) + 256 * (unat (b ! (off + 5))
     + 256 * (unat (b ! (off + 6)) + 256 * unat (b ! (off + 7))))))))"
  unfolding le_value_def sum_lessThan_8 by simp

lemma take8_drop:
  assumes "off + 8 \<le> length b"
  shows "take 8 (drop off b) = [b ! off, b ! (off + 1), b ! (off + 2), b ! (off + 3),
     b ! (off + 4), b ! (off + 5), b ! (off + 6), b ! (off + 7)]"
proof -
  have "length (take 8 (drop off b)) = 8"
    using assms by simp
  moreover have "take 8 (drop off b) ! k = b ! (off + k)" if "k < 8" for k
    using that assms by simp
  ultimately show ?thesis
    by (simp add: list_eq_iff_nth_eq nth_Cons' All_less_Suc eval_nat_numeral)
qed

lemma LE_slice:
  assumes "off + 8 \<le> length b"
  shows "LittleEndian_Uint64 (take 8 (drop off b)) = word_of_nat (le_value b off)"
proof -
  have "unat (LittleEndian_Uint64 (take 8 (drop off b))) = le_value b off"
    unfolding take8_drop [OF assms] unat_LE le_value_eq ..
  moreover have "word_of_nat (unat (LittleEndian_Uint64 (take 8 (drop off b))))
      = LittleEndian_Uint64 (take 8 (drop off b))"
    by simp
  ultimately show ?thesis
    by simp
qed

lemma le_value_less: "le_value b off < 18446744073709551616"
proof -
  have b: "unat x < 256" for x :: byte
    using unsigned_less [of x, where 'a = nat] by simp
  show ?thesis
    unfolding le_value_eq
    using b [of "b ! off"] b [of "b ! (off + 1)"] b [of "b ! (off + 2)"] b [of "b ! (off + 3)"]
      b [of "b ! (off + 4)"] b [of "b ! (off + 5)"] b [of "b ! (off + 6)"] b [of "b ! (off + 7)"]
    by simp
qed

lemma LE_slice_end:
  assumes "off + 8 = length b"
  shows "LittleEndian_Uint64 (drop off b) = word_of_nat (le_value b off)"
  using LE_slice [of off b] assms by simp

section \<open>Records and maps\<close>

lemma on_record_eq:
  "on_record method ID m =
     (case method (record_of m ID new_routetxresults) of (ok, r') \<Rightarrow> Inr (ok, m(ID \<mapsto> r')))"
  by (cases "m ID")
     (simp_all add: on_record_def routetxmap_add_def routetxmap_get_def record_of_def)

lemma start_ida_gossip_eq:
  "start_ida_gossip ID t m = Inr (m(ID \<mapsto> (record_of m ID new_IDAGossipResults)\<lparr>ida_start := t\<rparr>))"
  by (cases "m ID")
     (simp_all add: start_ida_gossip_def IDAGossipResultsMap_add_def IDAGossipResultsMap_get_def record_of_def)

lemma routetx_first:
  assumes "IsZero (rt_start (record_of m ID new_routetxresults))"
    and "\<not> rt_mux (record_of m ID new_routetxresults)"
  shows "routetx ID t m = Inr (Some True, m(ID \<mapsto> (record_of m ID new_routetxresults)\<lparr>rt_start := t\<rparr>))"
  using assms
  by (cases "m ID")
     (simp_all add: routetx_def on_record_def routetxmap_add_def routetxmap_get_def
        routetxresults_addStart_def record_of_def)

lemma routetx_later:
  assumes "m ID = Some r" and "\<not> IsZero (rt_start r)" and "\<not> rt_mux r"
  shows "routetx ID t m = Inr (Some False, m)"
  using assms
  by (simp add: routetx_def on_record_def routetxmap_add_def routetxmap_get_def
        routetxresults_addStart_def fun_upd_idem)

section \<open>The assignment pass in general\<close>

text \<open>
  The loop on its first \<open>k\<close> positions, as long as \<open>k\<close> stays within the \<open>m\<close>
  blocks and the one block after them.
\<close>

lemma assign_loop_append:
  "assign_loop nn npm rest cs (xs @ ys) s =
     (case assign_loop nn npm rest cs xs s of
        Inl e \<Rightarrow> Inl e
      | Inr s' \<Rightarrow> assign_loop nn npm rest cs ys s')"
  by (induction xs arbitrary: s) (auto split: sum.splits)

lemma length_tagged [simp]: "length (tagged m npm rest committees nodeInfos k) = length nodeInfos"
  by (simp add: tagged_def)

lemma nth_tagged:
  "i < length nodeInfos \<Longrightarrow>
   tagged m npm rest committees nodeInfos k ! i
     = (if i < k then tag_node m npm rest committees i (nodeInfos ! i) else nodeInfos ! i)"
  by (simp add: tagged_def)

lemma tagged_0: "tagged m npm rest committees nodeInfos 0 = nodeInfos"
  by (rule nth_equalityI) (simp_all add: nth_tagged)

lemma tagged_Suc:
  assumes "k < length nodeInfos"
  shows "(tagged m npm rest committees nodeInfos k)
           [k := tag_node m npm rest committees k (tagged m npm rest committees nodeInfos k ! k)]
         = tagged m npm rest committees nodeInfos (Suc k)"
  using assms
  by (intro nth_equalityI) (simp_all add: nth_tagged nth_list_update less_Suc_eq)

lemma next_c_at:
  assumes "0 < npm" "0 < m" "k < m * npm + npm"
  shows "next_c (m * npm + rest) npm rest k (if k = 0 then 0 else committee_index npm m (k - 1))
         = (committee_index npm m k, t_npm_at m npm rest k)"
proof (cases k)
  case 0
  then show ?thesis
    by (simp add: next_c_def committee_index_def t_npm_at_def)
next
  case (Suc j)
  have "int (m * npm + rest) - int rest = int (m * npm)"
    by simp
  then have nn: "(int k \<noteq> int (m * npm + rest) - int rest) = (k \<noteq> m * npm)"
    by (simp only: of_nat_eq_iff)
  show ?thesis
  proof (cases "k mod npm = 0")
    case False
    then have "k div npm = j div npm" "k \<noteq> m * npm"
      using Suc by (auto simp: div_Suc)
    then show ?thesis
      using False Suc by (simp add: next_c_def committee_index_def t_npm_at_def)
  next
    case True
    then have d: "k div npm = Suc (j div npm)"
      using Suc by (simp add: div_Suc)
    have q: "k = (k div npm) * npm"
      using True by auto
    have le: "k div npm \<le> m"
    proof -
      have "(k div npm) * npm < Suc m * npm"
        using assms(3) q by simp
      then have "k div npm < Suc m"
        by (simp only: mult_less_cancel2)
      then show ?thesis by simp
    qed
    show ?thesis
    proof (cases "k = m * npm")
      case eq: True
      then have "k div npm = m"
        using assms(1) by simp
      then have "j div npm = m - 1"
        using d by simp
      then show ?thesis
        using True Suc eq \<open>k div npm = m\<close> nn
        by (simp add: next_c_def committee_index_def t_npm_at_def)
    next
      case ne: False
      have "k div npm \<noteq> m"
        using q ne by auto
      then have "k div npm < m"
        using le by simp
      then have "j div npm < m - 1" "k div npm \<le> m - 1"
        using d by simp_all
      then show ?thesis
        using True Suc ne d nn
        by (simp add: next_c_def committee_index_def t_npm_at_def min_def)
    qed
  qed
qed


lemma assign_step_at:
  assumes "0 < npm" "0 < m" "length committees = m" "k < length nodeInfos" "k < m * npm + npm"
  shows "assign_step (m * npm + rest) npm rest committees k
           (if k = 0 then 0 else committee_index npm m (k - 1),
            tagged m npm rest committees nodeInfos k)
         = Inr (committee_index npm m k, tagged m npm rest committees nodeInfos (Suc k))"
proof -
  have "committee_index npm m k \<le> m - 1"
    by (simp add: committee_index_def)
  then have c: "committee_index npm m k < length committees"
    using assms(2,3) by arith
  have t: "t_npm_at m npm rest k \<noteq> 0"
    using assms(1) by (simp add: t_npm_at_def)
  show ?thesis
    using assms(1,4) c t
    by (simp add: assign_step_def next_c_at [OF assms(1,2,5)] tagged_Suc [symmetric] tag_node_def)
qed

lemma assign_loop_prefix:
  assumes "0 < npm" "0 < m" "length committees = m"
    and "k \<le> length nodeInfos" "k \<le> m * npm + npm"
  shows "assign_loop (m * npm + rest) npm rest committees [0..<k] (0, nodeInfos)
         = Inr (if k = 0 then 0 else committee_index npm m (k - 1),
                tagged m npm rest committees nodeInfos k)"
  using assms(4,5)
proof (induction k)
  case 0
  then show ?case
    by (simp add: tagged_0)
next
  case (Suc k)
  then have "k < length nodeInfos" "k < m * npm + npm"
    by simp_all
  from assign_step_at [OF assms(1,2,3) this] Suc
  show ?case
    by (simp add: assign_loop_append)
qed


text \<open>
  With \<open>N \<ge> M > 0\<close> the pass returns exactly when the remainder is no larger than a
  block. It then leaves node \<open>i\<close> in committee \<open>min (i div npm) (M - 1)\<close>: blocks of
  \<open>npm\<close> positions, the last of them longer by the remainder. With a larger remainder
  it reads past the committee ids.
\<close>

lemma assign_committees_fits:
  assumes "0 < flag_m fa" "flag_m fa \<le> flag_n fa"
    and "flag_n fa mod flag_m fa \<le> flag_n fa div flag_m fa"
    and "length committees = flag_m fa" "length nodeInfos = flag_n fa"
  shows "assign_committees fa committees nodeInfos
         = Inr (tagged (flag_m fa) (flag_n fa div flag_m fa) (flag_n fa mod flag_m fa)
                  committees nodeInfos (flag_n fa))"
proof -
  define m npm rest where "m = flag_m fa" and "npm = flag_n fa div flag_m fa"
    and "rest = flag_n fa mod flag_m fa"
  have n: "flag_n fa = m * npm + rest"
    by (simp add: m_def npm_def rest_def)
  have p: "0 < npm"
    using assms(1,2) by (simp add: npm_def div_greater_zero_iff)
  have m: "0 < m" "length committees = m"
    using assms(1,4) by (simp_all add: m_def)
  have r: "rest \<le> npm"
    using assms(3) by (simp add: npm_def rest_def)
  have k: "flag_n fa \<le> length nodeInfos" "flag_n fa \<le> m * npm + npm"
    using assms(5) r by (simp_all add: n)
  have "assign_loop (m * npm + rest) npm rest committees [0..<flag_n fa] (0, nodeInfos)
        = Inr (if flag_n fa = 0 then 0 else committee_index npm m (flag_n fa - 1),
               tagged m npm rest committees nodeInfos (flag_n fa))"
    by (rule assign_loop_prefix [OF p m k])
  then have "assign_loop (flag_n fa) npm rest committees [0..<flag_n fa] (0, nodeInfos)
        = Inr (if flag_n fa = 0 then 0 else committee_index npm m (flag_n fa - 1),
               tagged m npm rest committees nodeInfos (flag_n fa))"
    by (simp only: n [symmetric])
  then show ?thesis
    using assms(1)
    by (simp add: assign_committees_def m_def npm_def rest_def)
qed


lemma committee_index_block:
  assumes "0 < npm" "j < m"
  shows "committee_index npm m i = j \<longleftrightarrow> j * npm \<le> i \<and> (j < m - 1 \<longrightarrow> i < Suc j * npm)"
proof -
  have a: "j \<le> i div npm \<longleftrightarrow> j * npm \<le> i"
    using assms(1) by (simp add: less_eq_div_iff_mult_less_eq)
  have b: "i div npm < Suc j \<longleftrightarrow> i < Suc j * npm"
    using assms(1) by (simp only: div_less_iff_less_mult)
  show ?thesis
  proof (cases "j < m - 1")
    case True
    then have "committee_index npm m i = j \<longleftrightarrow> i div npm = j"
      by (auto simp: committee_index_def min_def)
    also have "\<dots> \<longleftrightarrow> j \<le> i div npm \<and> i div npm < Suc j"
      by auto
    finally show ?thesis
      using True by (simp only: a b) simp
  next
    case False
    then have j: "j = m - 1"
      using assms(2) by simp
    then have "committee_index npm m i = j \<longleftrightarrow> j \<le> i div npm"
      by (auto simp: committee_index_def min_def)
    then show ?thesis
      using False by (simp only: a) simp
  qed
qed

text \<open>
  The rule for the number of adversaries, and the tags when \<open>M\<close> divides \<open>N\<close>: node
  \<open>i\<close> is adversarial exactly when its position within its block is below the number
  the rule gives for a block of \<open>npm\<close>.
\<close>

lemma adversaries_even:
  assumes "even c"
  shows "adversaries c t = int (t div 2) - (if 2 dvd t then 1 else 0)"
proof -
  have "c mod 2 = 0"
    using assms by (simp add: even_iff_mod_2_eq_zero)
  then show ?thesis
    by (simp add: adversaries_def Let_def odd_iff_mod_2_eq_one)
qed

lemma adversaries_odd:
  assumes "odd c"
  shows "adversaries c t = int (t div 6) - (if 6 dvd t then 1 else 0)"
proof -
  have "c mod 2 \<noteq> 0"
    using assms by (simp add: even_iff_mod_2_eq_zero)
  then show ?thesis
    by (simp add: adversaries_def Let_def dvd_eq_mod_eq_0)
qed

lemma adversaries_range:
  assumes "0 < t"
  shows "0 \<le> adversaries c t" "adversaries c t < int t"
proof -
  have a: "2 dvd t \<Longrightarrow> 1 \<le> t div 2" "6 dvd t \<Longrightarrow> 1 \<le> t div 6"
    using assms by (auto elim!: dvdE)
  have b: "t div 2 < t" "t div 6 < t"
    using assms by simp_all
  show "0 \<le> adversaries c t"
    using a by (cases "even c") (auto simp: adversaries_even adversaries_odd)
  show "adversaries c t < int t"
    using b by (cases "even c") (auto simp: adversaries_even adversaries_odd)
qed

lemma assigned_node:
  assumes "0 < flag_m fa" "flag_m fa \<le> flag_n fa"
    and "flag_n fa mod flag_m fa \<le> flag_n fa div flag_m fa"
    and "length committees = flag_m fa" "length nodeInfos = flag_n fa"
    and "i < flag_n fa"
  shows "map_sum id (\<lambda>nodeInfos'. nodeInfos' ! i) (assign_committees fa committees nodeInfos)
         = Inr (tag_node (flag_m fa) (flag_n fa div flag_m fa) (flag_n fa mod flag_m fa)
                  committees i (nodeInfos ! i))"
  using assms(5,6) by (simp add: assign_committees_fits [OF assms(1-5)] nth_tagged)

lemma exact_division_node:
  assumes "0 < flag_m fa" "flag_m fa \<le> flag_n fa" "flag_n fa mod flag_m fa = 0"
    and "length committees = flag_m fa" "length nodeInfos = flag_n fa"
    and "i < flag_n fa"
  shows "map_sum id (\<lambda>nodeInfos'. nodeInfos' ! i) (assign_committees fa committees nodeInfos)
         = Inr ((nodeInfos ! i)
             \<lparr>CommitteeID := committees ! (i div (flag_n fa div flag_m fa)),
              IsHonest := \<not> int (i mod (flag_n fa div flag_m fa))
                 < adversaries (i div (flag_n fa div flag_m fa)) (flag_n fa div flag_m fa)\<rparr>)"
proof -
  define m npm where "m = flag_m fa" and "npm = flag_n fa div flag_m fa"
  have n: "flag_n fa = m * npm"
    using assms(3) div_mult_mod_eq [of "flag_n fa" "flag_m fa"]
    by (simp add: m_def npm_def mult.commute)
  have p: "0 < npm"
    using assms(1,2) by (simp add: npm_def div_greater_zero_iff)
  have "i div npm < m"
    using assms(6) p by (simp add: n div_less_iff_less_mult mult.commute)
  then have c: "committee_index npm m i = i div npm"
    by (simp add: committee_index_def min_def)
  have t: "t_npm_at m npm 0 i = npm"
    using assms(6) by (simp add: t_npm_at_def n)
  have "map_sum id (\<lambda>nodeInfos'. nodeInfos' ! i) (assign_committees fa committees nodeInfos)
         = Inr (tag_node m npm 0 committees i (nodeInfos ! i))"
    using assigned_node [OF assms(1,2) _ assms(4,5,6)] assms(3)
    by (simp add: m_def npm_def)
  then have "map_sum id (\<lambda>nodeInfos'. nodeInfos' ! i) (assign_committees fa committees nodeInfos)
         = Inr ((nodeInfos ! i)
             \<lparr>CommitteeID := committees ! (i div npm),
              IsHonest := \<not> int (i mod npm) < adversaries (i div npm) npm\<rparr>)"
    by (simp add: tag_node_def c t)
  then show ?thesis
    by (simp only: npm_def)
qed

text \<open>
  The aggregate check of lines 385 to 387 never ends in its \<^verbatim>\<open>log.Fatal\<close>, whatever
  the number of adversaries counted.
\<close>

lemma check_total_not_fatal:
  assumes "0 \<le> checkTotalF" "checkTotalF \<le> int (flag_n fa)"
  shows "check_total fa checkTotalF \<noteq> Inl (Fatal s)"
proof (cases "flag_totalF fa = 1")
  case True
  have "\<not> int (flag_n fa) div checkTotalF < 1" if "checkTotalF \<noteq> 0"
  proof -
    have "0 < checkTotalF"
      using that assms(1) by simp
    then have "0 < int (flag_n fa) div checkTotalF"
      using assms(2) by (simp only: pos_imp_zdiv_pos_iff)
    then show ?thesis
      by simp
  qed
  then show ?thesis
    using True by (auto simp: check_total_def)
next
  case False
  have "0 \<le> int (flag_n fa) div checkTotalF"
    using assms(1) by (cases "checkTotalF = 0") (simp_all add: pos_imp_zdiv_nonneg_iff)
  moreover have "(1::int) div int (flag_totalF fa) = 0" if "flag_totalF fa \<noteq> 0"
    using that False by (simp add: div_pos_pos_trivial)
  ultimately show ?thesis
    by (auto simp: check_total_def)
qed

section \<open>What the seed can change\<close>






section \<open>The assignment pass on concrete runs\<close>

text \<open>
  Claim C1: for all \<open>N \<ge> M > 0\<close> the assignment pass partitions the \<open>N\<close> nodes into
  exactly \<open>M\<close> committees of size \<open>N div M\<close>, but for one of size
  \<open>N div M + N mod M\<close>. The pass does not come to an end on every such input: with
  \<open>N = 5\<close> and \<open>M = 3\<close> the remainder 2 is larger than the block size 1, the counter
  \<^verbatim>\<open>c\<close> is incremented again at \<open>i = 4\<close>, after the block that was to take the
  remainder, and \<^verbatim>\<open>committees[c]\<close> is read past the end of the slice. The same
  happens whenever the remainder is larger than a block
  (\<open>assign_committees_overflows\<close>); otherwise the partition is the one claimed
  (\<open>assign_committees_fits\<close>, \<open>committee_index_block\<close>).
\<close>

theorem assign_5_3_runs_past_committees:
  "assign_committees (sample_args 5 3) (sample_committees 3) (sample_nodes 5)
     = Inl Panic_IndexOutOfRange"
  by code_simp

text \<open>
  Claim C2: the adversary count of every committee is \<open>size div d\<close>, less one when \<open>d\<close>
  divides the size, with \<open>d = 2\<close> for even and \<open>d = 6\<close> for odd committee indices.
  With \<open>N = 13\<close> and \<open>M = 3\<close> the last committee (index 2) has five members, for which
  the rule gives 2 adversaries; the pass flags one, since \<^verbatim>\<open>t_npm\<close> carries the
  remainder in a single iteration only. Where \<open>M\<close> divides \<open>N\<close> the count is the one
  of the rule (\<open>exact_division_node\<close>, \<open>adversaries_range\<close>).
\<close>

theorem remainder_committee_adversaries:
  "counts (assign_and_verify (sample_args 13 3) (sample_committees 3) (sample_nodes 13))
     = Inr ([(4, 1), (4, 0), (5, 1)], 2)
   \<and> adversaries 2 5 = 2"
  by code_simp

text \<open>
  The example of claim C2, \<open>N = 12\<close> and \<open>M = 3\<close>, where no remainder is left: committee 0
  gets one adversary and three honest nodes, committee 1 four honest nodes.
\<close>

lemma example_12_3:
  "counts (assign_and_verify (sample_args 12 3) (sample_committees 3) (sample_nodes 12))
     = Inr ([(4, 1), (4, 0), (4, 1)], 2)
   \<and> map_sum id (map IsHonest) (assign_committees (sample_args 12 3) (sample_committees 3) (sample_nodes 12))
     = Inr [False, True, True, True, True, True, True, True, False, True, True, True]"
  by code_simp

text \<open>
  Claim C7: in every committee exactly the first \<open>f\<close> nodes are flagged adversarial.
  With \<open>N = 14\<close> and \<open>M = 3\<close> the last committee holds the nodes at positions 8 to 13,
  and the flagged ones are its first and its fifth: no number \<open>f\<close> makes them a
  prefix.
\<close>

theorem remainder_committee_flags:
  "map_sum id (\<lambda>nodeInfos. map (\<lambda>x. (CommitteeID x = sample_committees 3 ! 2, IsHonest x)) (drop 8 nodeInfos))
     (assign_committees (sample_args 14 3) (sample_committees 3) (sample_nodes 14))
     = Inr [(True, False), (True, True), (True, True), (True, True), (True, False), (True, True)]"
  by code_simp

text \<open>
  Claim C6: whenever the verification pass completes, the adversaries are at most
  \<open>N / totalF\<close>, and any violation aborts. With \<open>N = 5\<close>, \<open>M = 1\<close> and
  \<open>totalF = 3\<close> the pass completes with two adversaries among five nodes, which is
  more than a third. The test of line 385 compares with \<^verbatim>\<open>1/int(flagArgs.totalF)\<close>,
  an integer quotient, and never leads to line 386 (\<open>check_total_not_fatal\<close>).
\<close>

theorem total_check_passes_5_1:
  "counts (assign_and_verify (sample_args 5 1) (sample_committees 1) (sample_nodes 5))
     = Inr ([(5, 2)], 2)
   \<and> flag_totalF (sample_args 5 1) = 3 \<and> (5::nat) < 2 * 3"
  by code_simp

text \<open>
  Claim C10: there are valid parameters with \<open>N \<ge> M > 0\<close> and \<open>N div M \<noteq> 1\<close>, such as
  \<open>N = 4\<close> and \<open>M = 2\<close>, for which no node is flagged adversarial, and then the
  aggregate check divides \<open>N\<close> by the zero total and the coordinator panics.
\<close>

theorem no_adversaries_divides_by_zero:
  "0 < flag_m (sample_args 4 2) \<and> flag_m (sample_args 4 2) \<le> flag_n (sample_args 4 2)
   \<and> flag_n (sample_args 4 2) div flag_m (sample_args 4 2) \<noteq> 1
   \<and> adversaries 0 2 = 0 \<and> adversaries 1 2 = 0
   \<and> map_sum id (map IsHonest)
        (assign_committees (sample_args 4 2) (sample_committees 2) (sample_nodes 4))
       = Inr [True, True, True, True]
   \<and> assign_and_verify (sample_args 4 2) (sample_committees 2) (sample_nodes 4)
       = Inl Panic_DivideByZero"
  by code_simp

section \<open>Seeding\<close>




section \<open>The gossip tracker\<close>

text \<open>
  Claim C3: the start of a gossip is first-write-wins, so that after a first report
  with \<open>t1\<close> a second report with \<open>t2\<close> leaves \<open>t1\<close> stored. The handler assigns
  the field on every \<^verbatim>\<open>start_ida_gossip\<close> message: after the second report the
  stored start is \<open>t2\<close>, whatever the state before and whatever \<open>t1\<close> was.
\<close>

theorem ida_start_last_write:
  "handle hp now1 \<lparr>Typ = ''start_ida_gossip'', Msg = P_ByteArrayAndTimestamp b t1\<rparr> st =
     Returned (st\<lparr>idaresults := (idaresults st)(toByte32 hp b \<mapsto>
        (record_of (idaresults st) (toByte32 hp b) new_IDAGossipResults)\<lparr>ida_start := t1\<rparr>)\<rparr>)
   \<and> handle hp now2 \<lparr>Typ = ''start_ida_gossip'', Msg = P_ByteArrayAndTimestamp b t2\<rparr>
       (st\<lparr>idaresults := (idaresults st)(toByte32 hp b \<mapsto>
        (record_of (idaresults st) (toByte32 hp b) new_IDAGossipResults)\<lparr>ida_start := t1\<rparr>)\<rparr>) =
     Returned (st\<lparr>idaresults := (idaresults st)(toByte32 hp b \<mapsto>
        (record_of (idaresults st) (toByte32 hp b) new_IDAGossipResults)\<lparr>ida_start := t2\<rparr>)\<rparr>)"
  by (simp add: handle_def start_ida_gossip_eq record_of_def)

section \<open>The route tracker\<close>

text \<open>
  Claim C8, as stated: for every transaction id and all \<open>t1\<close> and \<open>t2\<close>, a start
  report with \<open>t1\<close> followed by one with \<open>t2\<close> leaves \<open>t1\<close> stored, the first call
  returning true and the second false. Two things stand against it. The record tells
  an unset start by \<^verbatim>\<open>IsZero\<close>: when \<open>t1\<close> is the zero instant the first write
  leaves the start unset, and the second call writes \<open>t2\<close> and returns true as well.
  And a \<^verbatim>\<open>find_node\<close> report for the id, handled before, has stopped inside the
  record's lock (\<^verbatim>\<open>add\<close> calls \<^verbatim>\<open>init\<close> with the mutex held): the start report
  then waits for the lock and returns nothing.
\<close>

theorem routetx_not_always_first_write:
  "routetx zero32 zero_Time Map.empty = Inr (Some True, [zero32 \<mapsto> new_routetxresults])
   \<and> routetx zero32 sample_t1 [zero32 \<mapsto> new_routetxresults]
       = Inr (Some True, [zero32 \<mapsto> new_routetxresults\<lparr>rt_start := sample_t1\<rparr>])
   \<and> sample_t1 \<noteq> zero_Time
   \<and> find_node zero32 (replicate 32 9) sample_t1 Map.empty
       = Inr (None, [zero32 \<mapsto> new_routetxresults\<lparr>rt_mux := True\<rparr>])
   \<and> routetx zero32 sample_t1 [zero32 \<mapsto> new_routetxresults\<lparr>rt_mux := True\<rparr>]
       = Inr (None, [zero32 \<mapsto> new_routetxresults\<lparr>rt_mux := True\<rparr>])"
  by (simp add: routetx_def find_node_def on_record_def routetxmap_add_def routetxmap_get_def
        routetxresults_addStart_def routetxresults_add_def new_routetxresults_def IsZero_def
        zero_Time_def sample_t1_def)

text \<open>
  Claim C8, amended: for every transaction id whose record has no start stored and
  whose lock is not held (the id is new, or nothing but end reports came for it: a
  \<^verbatim>\<open>find_node\<close> report holds the lock for ever), and for every \<open>t1\<close> other than
  the zero instant, the first report stores \<open>t1\<close> and returns true, and the second
  report, with any \<open>t2\<close>, returns false and changes nothing, so that \<open>t1\<close> stays
  stored.
\<close>

theorem routetx_first_write_wins:
  assumes "\<not> IsZero t1"
    and "IsZero (rt_start (record_of m ID new_routetxresults))"
    and "\<not> rt_mux (record_of m ID new_routetxresults)"
  shows "routetx ID t1 m
           = Inr (Some True, m(ID \<mapsto> (record_of m ID new_routetxresults)\<lparr>rt_start := t1\<rparr>))
     \<and> routetx ID t2 (m(ID \<mapsto> (record_of m ID new_routetxresults)\<lparr>rt_start := t1\<rparr>))
           = Inr (Some False, m(ID \<mapsto> (record_of m ID new_routetxresults)\<lparr>rt_start := t1\<rparr>))"
proof
  show "routetx ID t1 m
          = Inr (Some True, m(ID \<mapsto> (record_of m ID new_routetxresults)\<lparr>rt_start := t1\<rparr>))"
    using assms(2,3) by (rule routetx_first)
  show "routetx ID t2 (m(ID \<mapsto> (record_of m ID new_routetxresults)\<lparr>rt_start := t1\<rparr>))
          = Inr (Some False, m(ID \<mapsto> (record_of m ID new_routetxresults)\<lparr>rt_start := t1\<rparr>))"
    by (rule routetx_later [where r = "(record_of m ID new_routetxresults)\<lparr>rt_start := t1\<rparr>"])
       (use assms in simp_all)
qed

theorem routetx_first_write_wins_witness:
  "\<not> IsZero sample_t1
   \<and> routetx zero32 sample_t1 Map.empty
       = Inr (Some True, [zero32 \<mapsto> new_routetxresults\<lparr>rt_start := sample_t1\<rparr>])
   \<and> routetx zero32 sample_t2 [zero32 \<mapsto> new_routetxresults\<lparr>rt_start := sample_t1\<rparr>]
       = Inr (Some False, [zero32 \<mapsto> new_routetxresults\<lparr>rt_start := sample_t1\<rparr>])"
  using routetx_first_write_wins [of sample_t1 Map.empty zero32 sample_t2]
  by (simp add: record_of_def IsZero_def new_routetxresults_def zero_Time_def sample_t1_def)

text \<open>
  Claim C5, as stated: a message whose type is the string \<^verbatim>\<open>transaction_received\<close>
  reaches \<^verbatim>\<open>addEnd\<close>. The case of the \<^verbatim>\<open>switch\<close> is spelled
  \<^verbatim>\<open>transaction_recieved\<close>; the string of the claim matches no case and ends in
  the default one, which is fatal.
\<close>

theorem transaction_received_is_unknown:
  "handle sample_helpers 1700000000
     \<lparr>Typ = ''transaction_received'', Msg = P_ByteArrayAndTimestamp (replicate 32 7) sample_t1\<rparr>
     sample_state
   = Exits (Fatal ''no known message type (coordinator)'')"
  by (simp add: handle_def errFatal_def)

text \<open>
  Claim C5, amended: for every message whose type is the string
  \<^verbatim>\<open>transaction_recieved\<close> and whose payload is a byte array with a timestamp, the
  dispatcher calls \<^verbatim>\<open>addEnd\<close> with that timestamp on the record of the id the bytes
  give. When the call returns true (the first end written), one line with the record
  is appended to \<^verbatim>\<open>files[3]\<close>, the fourth sink, and to no other; when it returns
  false nothing is written; when the record's mutex is held for ever the handler
  waits with it. In no case is the message taken for an unknown tag.
\<close>

theorem transaction_recieved_marks_end:
  assumes "3 < length (files st)"
  shows "handle hp now \<lparr>Typ = ''transaction_recieved'', Msg = P_ByteArrayAndTimestamp b t\<rparr> st =
    (case routetxresults_addEnd t (record_of (rMap st) (toByte32 hp b) new_routetxresults) of
       (None, r') \<Rightarrow> Waits_forever (st\<lparr>rMap := (rMap st)(toByte32 hp b \<mapsto> r')\<rparr>)
     | (Some False, r') \<Rightarrow> Returned (st\<lparr>rMap := (rMap st)(toByte32 hp b \<mapsto> r')\<rparr>)
     | (Some True, r') \<Rightarrow>
         Returned (st\<lparr>rMap := (rMap st)(toByte32 hp b \<mapsto> r'),
           files := (files st)[3 := files st ! 3 @ prepareResultString now (route_line hp r')]\<rparr>))"
proof (cases "routetxresults_addEnd t (record_of (rMap st) (toByte32 hp b) new_routetxresults)")
  case (Pair ok r')
  then show ?thesis
    using assms
    by (cases ok)
       (simp_all add: handle_def transaction_recieved_def on_record_eq writeStringToFile_def)
qed

theorem transaction_recieved_marks_end_witness:
  "3 < length (files sample_state)
   \<and> handle sample_helpers 1700000000
       \<lparr>Typ = ''transaction_recieved'', Msg = P_ByteArrayAndTimestamp (replicate 32 7) sample_t1\<rparr>
       sample_state
     = Returned (sample_state
         \<lparr>rMap := [replicate 32 7 \<mapsto> new_routetxresults\<lparr>rt_end := sample_t1\<rparr>],
          files := [[], [], [], ''1700000000,0,1764403200'' @ [CHR 0x0A], [], []]\<rparr>)"
proof -
  have f: "3 < length (files sample_state)"
    by (simp add: sample_state_def initial_state_def)
  have l: "prepareResultString 1700000000
             (route_line sample_helpers (new_routetxresults\<lparr>rt_end := sample_t1\<rparr>))
           = ''1700000000,0,1764403200'' @ [CHR 0x0A]"
    by (simp add: prepareResultString_def route_line_def new_routetxresults_def IsZero_def
          zero_Time_def sample_t1_def Unix_def FormatInt_def FormatUint.simps)
  have e: "routetxresults_addEnd sample_t1
             (record_of (rMap sample_state)
                (toByte32 sample_helpers (replicate 32 7)) new_routetxresults)
           = (Some True, new_routetxresults\<lparr>rt_end := sample_t1\<rparr>)"
    by (simp add: sample_state_def initial_state_def record_of_def routetxresults_addEnd_def
          new_routetxresults_def IsZero_def zero_Time_def)
  have i: "toByte32 sample_helpers (replicate 32 7) = replicate 32 7"
    by (simp add: sample_helpers_def)
  have g: "(files sample_state)[3 := x] = [[], [], [], x, [], []]"
    "files sample_state ! 3 = []" for x
    by (simp_all add: sample_state_def initial_state_def eval_nat_numeral)
  have m: "rMap sample_state = Map.empty"
    by (simp add: sample_state_def initial_state_def)
  note h = transaction_recieved_marks_end
    [OF f, of sample_helpers 1700000000 "replicate 32 7" sample_t1]
  show ?thesis
    using h [unfolded e] by (simp add: f l i g m)
qed

section \<open>The accept-fail log\<close>

text \<open>
  Claim C9: a \<^verbatim>\<open>consensus_accept_fail\<close> message whose byte array is not 88 bytes
  long ends the process (fatal) with nothing parsed and nothing written. One of
  exactly 88 bytes is parsed into the committee id (bytes 0 to 31), the public-key id
  (bytes 32 to 63), the iteration (bytes 64 to 71, little-endian, unsigned), the total
  votes (bytes 72 to 79) and the votes received (bytes 80 to 87), the last two
  little-endian and signed, and the five fields are appended as one line to
  \<^verbatim>\<open>files[5]\<close>, the sixth sink.
\<close>

theorem consensus_accept_fail_88:
  "(length b \<noteq> 88 \<longrightarrow>
      handle hp now \<lparr>Typ = ''consensus_accept_fail'', Msg = P_ByteArrayAndTimestamp b t\<rparr> st =
        Exits (Fatal (''length of consensus accept fail msg was not 80: ''
                        @ FormatInt (int (length b)) @ '' '')))
   \<and> (length b = 88 \<and> 5 < length (files st) \<longrightarrow>
      handle hp now \<lparr>Typ = ''consensus_accept_fail'', Msg = P_ByteArrayAndTimestamp b t\<rparr> st =
        Returned (st\<lparr>files := (files st)[5 := files st ! 5 @ prepareResultString now
          (bytes32ToString hp (toByte32 hp (take 32 b)) @ '',''
           @ bytes32ToString hp (toByte32 hp (take 32 (drop 32 b))) @ '',''
           @ FormatUint (le_value b 64) @ '',''
           @ FormatInt (sint (word_of_nat (le_value b 72) :: 64 word)) @ '',''
           @ FormatInt (sint (word_of_nat (le_value b 80) :: 64 word)))]\<rparr>))"
  by (simp add: handle_def errFatal_def writeStringToFile_def consensus_accept_fail_line_def
        LE_slice LE_slice_end unat_of_nat le_value_less)

lemma sample_values:
  "le_value sample_payload 64 = 5"
  "le_value sample_payload 72 = 18446744073709551615"
  "le_value sample_payload 80 = 259"
  by (simp_all add: le_value_eq sample_payload_def nth_append)

theorem consensus_accept_fail_88_witness:
  "length [1, 2, 3 :: byte] \<noteq> 88
   \<and> handle sample_helpers 1700000000
        \<lparr>Typ = ''consensus_accept_fail'', Msg = P_ByteArrayAndTimestamp [1, 2, 3] sample_t1\<rparr>
        sample_state
      = Exits (Fatal ''length of consensus accept fail msg was not 80: 3 '')
   \<and> length sample_payload = 88 \<and> 5 < length (files sample_state)
   \<and> handle sample_helpers 1700000000
        \<lparr>Typ = ''consensus_accept_fail'', Msg = P_ByteArrayAndTimestamp sample_payload sample_t1\<rparr>
        sample_state
      = Returned (sample_state\<lparr>files := [[], [], [], [], [],
          ''1700000000,'' @ replicate 32 (CHR ''1'') @ '','' @ replicate 32 (CHR ''2'')
          @ '',5,-1,259'' @ [CHR 0x0A]]\<rparr>)"
proof -
  have l: "length sample_payload = 88"
    by (simp add: sample_payload_def)
  have f: "5 < length (files sample_state)"
    by (simp add: sample_state_def initial_state_def)
  have n: "FormatInt 1700000000 = ''1700000000''" "FormatInt 3 = ''3''"
    by (simp_all add: FormatInt_def FormatUint.simps)
  have v: "FormatUint (le_value sample_payload 64) = ''5''"
    "FormatInt (sint (word_of_nat (le_value sample_payload 72) :: 64 word)) = ''-1''"
    "FormatInt (sint (word_of_nat (le_value sample_payload 80) :: 64 word)) = ''259''"
    by (simp_all add: sample_values FormatInt_def FormatUint.simps)
  have s: "bytes32ToString sample_helpers (toByte32 sample_helpers (take 32 sample_payload))
             = replicate 32 (CHR ''1'')"
    "bytes32ToString sample_helpers (toByte32 sample_helpers (take 32 (drop 32 sample_payload)))
             = replicate 32 (CHR ''2'')"
    by (simp_all add: sample_helpers_def sample_payload_def)
  have g: "(files sample_state)[5 := x] = [[], [], [], [], [], x]"
    "files sample_state ! 5 = []" for x
    by (simp_all add: sample_state_def initial_state_def eval_nat_numeral)
  have a: "handle sample_helpers 1700000000
        \<lparr>Typ = ''consensus_accept_fail'', Msg = P_ByteArrayAndTimestamp [1, 2, 3] sample_t1\<rparr>
        sample_state
      = Exits (Fatal ''length of consensus accept fail msg was not 80: 3 '')"
    using consensus_accept_fail_88 [of "[1, 2, 3]" sample_helpers 1700000000 sample_t1 sample_state]
    by (simp add: n)
  have b: "handle sample_helpers 1700000000
        \<lparr>Typ = ''consensus_accept_fail'', Msg = P_ByteArrayAndTimestamp sample_payload sample_t1\<rparr>
        sample_state
      = Returned (sample_state\<lparr>files := [[], [], [], [], [],
          ''1700000000,'' @ replicate 32 (CHR ''1'') @ '','' @ replicate 32 (CHR ''2'')
          @ '',5,-1,259'' @ [CHR 0x0A]]\<rparr>)"
    using consensus_accept_fail_88 [of sample_payload sample_helpers 1700000000 sample_t1 sample_state]
    by (simp add: l f n v s g prepareResultString_def)
  show ?thesis
    using a b l f by simp
qed

end
